theory Spec2Isabelle
  imports Main "HOL-Library.Word" "HOL-Library.AList"
begin

unbundle bit_operations_syntax

section \<open>ARM native thread control: the embedding of \<^verbatim>\<open>threads_linux_arm.go\<close>\<close>

subsection \<open>Machine types, Go errors, outcomes\<close>

text \<open>
  The file is built for \<^verbatim>\<open>GOARCH=arm\<close>: \<^verbatim>\<open>uintptr\<close> has 32 bits, so the
  conversion \<^verbatim>\<open>uintptr(x)\<close> of a \<^verbatim>\<open>uint64\<close> keeps the low 32 bits (\<open>ucast\<close>).
\<close>

type_synonym byte = "8 word"
type_synonym uintptr = "32 word"
type_synonym uint64 = "64 word"

text \<open>
  A value of Go's interface type \<^verbatim>\<open>error\<close> is \<open>None\<close> (\<^verbatim>\<open>nil\<close>) or \<open>Some e\<close>.
  \<open>Errno n\<close> is \<^verbatim>\<open>syscall.Errno(n)\<close>; \<open>Errno 0\<close> is a non-nil interface value.
  A function returning \<^verbatim>\<open>(T, error)\<close> is modelled with \<open>error + T\<close>.
\<close>

datatype error =
    Errno nat
  | ErrProcessExited int int
  | ErrOther string

text \<open>A call either returns or ends in a run-time panic that propagates to the caller.\<close>

datatype 'a outcome = Returned 'a | Panicked

subsection \<open>The traced process as seen through the tracing primitives\<close>

text \<open>
  \<^verbatim>\<open>sys.WaitStatus\<close> is used only through three methods; a status is the triple of
  what they return.
\<close>

record WaitStatus =
  Exited :: bool
  ExitStatus :: int
  StopSignal :: int

definition SIGTRAP :: int where
  "SIGTRAP = 5"

text \<open>
  One result of \<^verbatim>\<open>t.dbp.wait\<close>: an error, or the observed id with the status
  pointer (\<open>None\<close> is the nil pointer).
\<close>

type_synonym wait_result = "error + int \<times> WaitStatus option"

datatype call =
    PeekData uintptr nat
  | PokeData uintptr "byte list"
  | Cont
  | Wait
  | PostExit
  | SetGRegs
  | SetFpRegs nat

text \<open>
  The environment of the code. \<open>mem\<close> is the tracee's memory. \<open>faults\<close> is the script
  of what the kernel answers to the successive ptrace requests: each request consumes the
  head, \<open>Some e\<close> makes it fail with \<open>e\<close>, \<open>None\<close> (or an exhausted script) lets it
  succeed. \<open>events\<close> is the script of what the successive calls of \<^verbatim>\<open>t.dbp.wait\<close>
  return; when it is exhausted the wait blocks forever. \<open>log\<close> records every request
  issued, oldest first.
\<close>

record world =
  mem :: "uintptr \<Rightarrow> byte"
  faults :: "error option list"
  events :: "wait_result list"
  log :: "call list"

definition request :: "call \<Rightarrow> world \<Rightarrow> error option \<times> world" where
  "request c w =
     (case faults w of
        [] \<Rightarrow> (None, w\<lparr>log := log w @ [c]\<rparr>)
      | f # fs \<Rightarrow> (f, w\<lparr>faults := fs, log := log w @ [c]\<rparr>))"

text \<open>
  \<^verbatim>\<open>sys.PtracePeekData(pid, addr, out)\<close> fills \<^verbatim>\<open>out\<close> with \<^verbatim>\<open>len(out)\<close> bytes
  read at \<^verbatim>\<open>addr\<close>; \<^verbatim>\<open>sys.PtracePokeData(pid, addr, data)\<close> writes \<^verbatim>\<open>data\<close> at
  \<^verbatim>\<open>addr\<close>. A failed write leaves the memory as it was.
\<close>

definition read_bytes :: "(uintptr \<Rightarrow> byte) \<Rightarrow> uintptr \<Rightarrow> nat \<Rightarrow> byte list" where
  "read_bytes m a n = map (\<lambda>i. m (a + of_nat i)) [0..<n]"

fun write_bytes :: "uintptr \<Rightarrow> byte list \<Rightarrow> (uintptr \<Rightarrow> byte) \<Rightarrow> (uintptr \<Rightarrow> byte)" where
  "write_bytes a [] m = m"
| "write_bytes a (b # bs) m = write_bytes (a + 1) bs (m(a := b))"

definition PtracePeekData :: "uintptr \<Rightarrow> nat \<Rightarrow> world \<Rightarrow> (error + byte list) \<times> world" where
  "PtracePeekData a n w =
     (case request (PeekData a n) w of
        (Some e, w') \<Rightarrow> (Inl e, w')
      | (None, w') \<Rightarrow> (Inr (read_bytes (mem w') a n), w'))"

definition PtracePokeData :: "uintptr \<Rightarrow> byte list \<Rightarrow> world \<Rightarrow> error option \<times> world" where
  "PtracePokeData a bs w =
     (case request (PokeData a bs) w of
        (Some e, w') \<Rightarrow> (Some e, w')
      | (None, w') \<Rightarrow> (None, w'\<lparr>mem := write_bytes a bs (mem w')\<rparr>))"

definition ptraceCont :: "world \<Rightarrow> error option \<times> world" where
  "ptraceCont w = request Cont w"

subsection \<open>\<^verbatim>\<open>restoreRegisters\<close>\<close>

text \<open>
  \<^verbatim>\<open>linutil.ARMRegisters\<close> as far as \<^verbatim>\<open>restoreRegisters\<close> reads it: the floating-point
  block \<^verbatim>\<open>Fpregset\<close> is a byte slice, \<open>None\<close> when nil. \<^verbatim>\<open>ptraceSetGRegs\<close> is a helper
  outside this file returning an \<^verbatim>\<open>error\<close>: its answer \<open>gres\<close> is any interface value
  (nil, \<open>Errno 0\<close>, or a failure). The raw \<^verbatim>\<open>PTRACE_SETREGSET\<close> system call answers with
  an errno \<open>fres\<close>, stored as the non-nil interface value \<open>Errno fres\<close>.
\<close>

definition restoreRegisters_closure ::
  "byte list option \<Rightarrow> error option \<Rightarrow> nat \<Rightarrow> call list \<Rightarrow> error option outcome \<times> call list" where
  "restoreRegisters_closure Fpregset gres fres lg =
     (let lg1 = lg @ [SetGRegs];
          restoreRegistersErr = gres
      in if restoreRegistersErr \<noteq> Some (Errno 0) then (Returned restoreRegistersErr, lg1)
         else
           (case Fpregset of
              None \<Rightarrow> (Returned restoreRegistersErr, lg1)
            | Some [] \<Rightarrow> (Panicked, lg1)
            | Some (b # bs) \<Rightarrow> (Returned (Some (Errno fres)), lg1 @ [SetFpRegs (length (b # bs))])))"

definition restoreRegisters ::
  "byte list option \<Rightarrow> error option \<Rightarrow> nat \<Rightarrow> call list \<Rightarrow> error option outcome \<times> call list" where
  "restoreRegisters Fpregset gres fres lg =
     (case restoreRegisters_closure Fpregset gres fres lg of
        (Panicked, lg') \<Rightarrow> (Panicked, lg')
      | (Returned restoreRegistersErr, lg') \<Rightarrow>
          (Returned (if restoreRegistersErr = Some (Errno 0) then None else restoreRegistersErr), lg'))"

subsection \<open>Decoded instructions (\<^verbatim>\<open>armasm.Inst\<close>)\<close>

text \<open>
  The operation tags the code switches on, and \<open>OtherOp\<close> for every other tag of the
  decoder (a conditional branch such as \<^verbatim>\<open>B_EQ\<close> is one of those: it is a tag of its
  own, different from \<^verbatim>\<open>B\<close>).
\<close>

datatype Op = BL | BLX | B | BX | POP | LDR | MOV | ADD | OtherOp nat

datatype AddrMode = AddrPostIndex | AddrPreIndex | AddrOffset | AddrLDM | AddrLDM_WB

datatype Shift = ShiftLeft | ShiftRight | ShiftRightSigned | RotateRight | RotateRightExt

text \<open>
  \<^verbatim>\<open>armasm.Mem\<close>: \<open>Base\<close> and \<open>Index\<close> are register numbers, \<open>Sign\<close> an \<^verbatim>\<open>int8\<close>,
  \<open>Count\<close> a \<^verbatim>\<open>uint8\<close>, \<open>Offset\<close> an \<^verbatim>\<open>int16\<close> (read as signed).
\<close>

record Mem =
  Base :: nat
  Mode :: AddrMode
  Sign :: int
  Index :: nat
  Shift :: Shift
  Count :: "8 word"
  Offset :: "16 word"

text \<open>
  The operand shapes: \<open>NoArg\<close> is a nil entry of the four-element array
  \<^verbatim>\<open>Inst.Args\<close>, \<open>PCRel\<close> carries an \<^verbatim>\<open>int32\<close> (read as signed), \<open>OtherArg\<close> stands for
  the shapes the code never inspects.
\<close>

datatype Arg =
    NoArg
  | Imm "32 word"
  | Reg nat
  | PCRel "32 word"
  | RegList "16 word"
  | MemArg Mem
  | OtherArg

record Inst =
  Op :: Op
  Args0 :: Arg
  Args1 :: Arg
  Args2 :: Arg
  Args3 :: Arg

definition armasm_SP :: nat where
  "armasm_SP = 13"

definition armasm_PC :: nat where
  "armasm_PC = 15"

text \<open>
  \<^verbatim>\<open>proc.Registers\<close> is an interface; the code uses \<^verbatim>\<open>PC()\<close> and \<^verbatim>\<open>Get(n)\<close>.
\<close>

record Registers =
  PC :: uint64
  Get :: "int \<Rightarrow> error + uint64"

text \<open>
  What the thread object supplies: its id, the id of the process, the two constants of
  the architecture description, the result of \<^verbatim>\<open>t.Registers()\<close>, the decoder
  \<^verbatim>\<open>armasm.Decode(_, ModeARM)\<close>, and the order in which a \<^verbatim>\<open>range\<close> loop visits the
  entries of a Go map (unspecified by the language).
\<close>

record nativeThread =
  ID :: int
  dbp_pid :: int
  MaxInstructionLength :: nat
  BreakpointInstruction :: "byte list"
  t_Registers :: "error + Registers"
  Decode :: "byte list \<Rightarrow> error + Inst"
  rangeOrder :: "(uintptr \<times> byte list) list \<Rightarrow> (uintptr \<times> byte list) list"

text \<open>
  \<^verbatim>\<open>binary.LittleEndian.Uint32\<close> panics on fewer than four bytes and reads the first
  four otherwise.
\<close>

fun Uint32 :: "byte list \<Rightarrow> 32 word option" where
  "Uint32 (b0 # b1 # b2 # b3 # bs) =
     Some (ucast b0 OR push_bit 8 (ucast b1) OR push_bit 16 (ucast b2) OR push_bit 24 (ucast b3))"
| "Uint32 bs = None"

subsection \<open>\<^verbatim>\<open>resolvePC\<close>\<close>

text \<open>
  The branch case of the switch (\<^verbatim>\<open>BL\<close>, \<^verbatim>\<open>BLX\<close>, \<^verbatim>\<open>B\<close>, \<^verbatim>\<open>BX\<close>): a type switch
  on the first operand. \<^verbatim>\<open>uint64(arg)\<close> extends an \<^verbatim>\<open>Imm\<close> (unsigned) with zeros and a
  \<^verbatim>\<open>PCRel\<close> (signed) with its sign.
\<close>

definition case_branch :: "Registers \<Rightarrow> Inst \<Rightarrow> uint64 list \<Rightarrow> error + uint64 list" where
  "case_branch regs nextInstr nextPcs =
     (case Args0 nextInstr of
        Imm arg \<Rightarrow> Inr (nextPcs @ [ucast arg])
      | Reg arg \<Rightarrow>
          (case Get regs (int arg) of
             Inl err \<Rightarrow> Inl err
           | Inr pc \<Rightarrow> Inr (nextPcs @ [pc]))
      | PCRel arg \<Rightarrow> Inr (nextPcs @ [PC regs + scast arg])
      | _ \<Rightarrow> Inr nextPcs)"

text \<open>
  The loop of the \<^verbatim>\<open>POP\<close> case: for \<open>i\<close> from 0 below \<^verbatim>\<open>armasm.PC\<close>, add
  \<^verbatim>\<open>nextInstrLen\<close> when bit \<open>i\<close> of the register list is set.
\<close>

definition pop_address :: "nat \<Rightarrow> 16 word \<Rightarrow> uint64 \<Rightarrow> uint64" where
  "pop_address nextInstrLen regList sp =
     fold (\<lambda>i pc. if regList AND push_bit i 1 \<noteq> 0 then pc + of_nat nextInstrLen else pc)
       [0..<armasm_PC] sp"

text \<open>
  The tail shared by the \<^verbatim>\<open>POP\<close> and \<^verbatim>\<open>LDR\<close> cases: read \<^verbatim>\<open>nextInstrLen\<close> bytes
  at \<^verbatim>\<open>uintptr(pc)\<close>, decode them as a little-endian 32-bit value and append it.
\<close>

definition load_target ::
  "uint64 \<Rightarrow> nat \<Rightarrow> uint64 list \<Rightarrow> world \<Rightarrow> (error + uint64 list) outcome \<times> world" where
  "load_target pc nextInstrLen nextPcs w =
     (case PtracePeekData (ucast pc) nextInstrLen w of
        (Inl err, w') \<Rightarrow> (Returned (Inl err), w')
      | (Inr pcMem, w') \<Rightarrow>
          (case Uint32 pcMem of
             None \<Rightarrow> (Panicked, w')
           | Some v \<Rightarrow> (Returned (Inr (nextPcs @ [ucast v])), w')))"

text \<open>
  The index transformation of the \<^verbatim>\<open>LDR\<close> case. \<^verbatim>\<open>idx\<close> is a \<^verbatim>\<open>uint64\<close>, so both
  right shifts are logical 64-bit shifts; \<^verbatim>\<open>bits.RotateLeft64(idx, int(-arg.Count))\<close>
  negates the \<^verbatim>\<open>uint8\<close> count modulo 256 and rotates the 64-bit value left by that.
\<close>

definition shifted_index :: "Mem \<Rightarrow> uint64 \<Rightarrow> uint64" where
  "shifted_index arg idx =
     (if Shift arg \<noteq> ShiftLeft \<or> Count arg \<noteq> 0 then
        (case Shift arg of
           ShiftLeft \<Rightarrow> push_bit (unat (Count arg)) idx
         | ShiftRight \<Rightarrow> drop_bit (unat (Count arg)) idx
         | ShiftRightSigned \<Rightarrow> drop_bit (unat (Count arg)) idx
         | RotateRight \<Rightarrow> word_rotl (unat (- Count arg)) idx
         | RotateRightExt \<Rightarrow> word_rotl (unat (- Count arg)) idx)
      else idx)"

definition ldr_address :: "Registers \<Rightarrow> Mem \<Rightarrow> error + uint64" where
  "ldr_address regs arg =
     (case Get regs (int (Base arg)) of
        Inl err \<Rightarrow> Inl err
      | Inr pc \<Rightarrow>
          if Mode arg = AddrOffset \<or> Mode arg = AddrPreIndex then
            if Sign arg \<noteq> 0 then
              (case Get regs (int (Index arg)) of
                 Inl err \<Rightarrow> Inl err
               | Inr idx \<Rightarrow>
                   (let idx' = shifted_index arg idx
                    in Inr (if Sign arg < 0 then pc - idx' else pc + idx')))
            else Inr (pc + scast (Offset arg))
          else Inr pc)"

text \<open>The loop of the \<^verbatim>\<open>MOV\<close>/\<^verbatim>\<open>ADD\<close> case over \<^verbatim>\<open>nextInstr.Args[1:]\<close>.\<close>

fun sum_args :: "Registers \<Rightarrow> Arg list \<Rightarrow> uint64 \<Rightarrow> error + uint64" where
  "sum_args regs [] pc = Inr pc"
| "sum_args regs (argRaw # rest) pc =
     (case argRaw of
        Imm arg \<Rightarrow> sum_args regs rest (pc + ucast arg)
      | Reg arg \<Rightarrow>
          (case Get regs (int arg) of
             Inl err \<Rightarrow> Inl err
           | Inr regVal \<Rightarrow> sum_args regs rest (pc + regVal))
      | _ \<Rightarrow> sum_args regs rest pc)"

text \<open>The \<^verbatim>\<open>POP\<close>, \<^verbatim>\<open>LDR\<close> and \<^verbatim>\<open>MOV\<close>/\<^verbatim>\<open>ADD\<close> cases of the switch.\<close>

definition case_pop ::
  "nat \<Rightarrow> Registers \<Rightarrow> Inst \<Rightarrow> uint64 list \<Rightarrow> world \<Rightarrow> (error + uint64 list) outcome \<times> world" where
  "case_pop nextInstrLen regs nextInstr nextPcs w =
     (case Args0 nextInstr of
        RegList regList \<Rightarrow>
          if regList AND push_bit armasm_PC 1 \<noteq> 0 then
            (case Get regs (int armasm_SP) of
               Inl err \<Rightarrow> (Returned (Inl err), w)
             | Inr pc \<Rightarrow> load_target (pop_address nextInstrLen regList pc) nextInstrLen nextPcs w)
          else (Returned (Inr nextPcs), w)
      | _ \<Rightarrow> (Returned (Inr nextPcs), w))"

definition case_ldr ::
  "nat \<Rightarrow> Registers \<Rightarrow> Inst \<Rightarrow> uint64 list \<Rightarrow> world \<Rightarrow> (error + uint64 list) outcome \<times> world" where
  "case_ldr nextInstrLen regs nextInstr nextPcs w =
     (if Args0 nextInstr = Reg armasm_PC then
        (case Args1 nextInstr of
           MemArg arg \<Rightarrow>
             (case ldr_address regs arg of
                Inl err \<Rightarrow> (Returned (Inl err), w)
              | Inr pc \<Rightarrow> load_target pc nextInstrLen nextPcs w)
         | _ \<Rightarrow> (Returned (Inr nextPcs), w))
      else (Returned (Inr nextPcs), w))"

definition case_arith :: "Registers \<Rightarrow> Inst \<Rightarrow> uint64 list \<Rightarrow> error + uint64 list" where
  "case_arith regs nextInstr nextPcs =
     (if Args0 nextInstr = Reg armasm_PC then
        (case sum_args regs [Args1 nextInstr, Args2 nextInstr, Args3 nextInstr] 0 of
           Inl err \<Rightarrow> Inl err
         | Inr pc \<Rightarrow> Inr (nextPcs @ [pc]))
      else Inr nextPcs)"

text \<open>The switch on \<^verbatim>\<open>nextInstr.Op\<close>, with \<^verbatim>\<open>nextPcs\<close> already seeded.\<close>

definition resolve_switch ::
  "nat \<Rightarrow> Registers \<Rightarrow> Inst \<Rightarrow> uint64 list \<Rightarrow> world \<Rightarrow> (error + uint64 list) outcome \<times> world" where
  "resolve_switch nextInstrLen regs nextInstr nextPcs w =
     (if Op nextInstr \<in> {BL, BLX, B, BX} then (Returned (case_branch regs nextInstr nextPcs), w)
      else if Op nextInstr = POP then case_pop nextInstrLen regs nextInstr nextPcs w
      else if Op nextInstr = LDR then case_ldr nextInstrLen regs nextInstr nextPcs w
      else if Op nextInstr \<in> {MOV, ADD} then (Returned (case_arith regs nextInstr nextPcs), w)
      else (Returned (Inr nextPcs), w))"

definition resolvePC ::
  "nativeThread \<Rightarrow> Registers \<Rightarrow> world \<Rightarrow> (error + uint64 list) outcome \<times> world" where
  "resolvePC t regs w =
     (let nextInstrLen = MaxInstructionLength t
      in case PtracePeekData (ucast (PC regs)) nextInstrLen w of
           (Inl err, w1) \<Rightarrow> (Returned (Inl err), w1)
         | (Inr nextInstrBytes, w1) \<Rightarrow>
             (let nextPcs = [PC regs + of_nat nextInstrLen]
              in case Decode t nextInstrBytes of
                   Inl err \<Rightarrow> (Returned (Inl err), w1)
                 | Inr nextInstr \<Rightarrow> resolve_switch nextInstrLen regs nextInstr nextPcs w1))"

subsection \<open>\<^verbatim>\<open>singleStep\<close>\<close>

text \<open>
  \<^verbatim>\<open>originalDatas\<close> is a Go map from address to saved bytes: an association list with
  one entry per key, where storing under a present key replaces its value.
\<close>

definition readWriteMem ::
  "nativeThread \<Rightarrow> uintptr \<Rightarrow> byte list \<Rightarrow> (uintptr \<times> byte list) list \<Rightarrow> world
     \<Rightarrow> error option \<times> (uintptr \<times> byte list) list \<times> world" where
  "readWriteMem t addr instr originalDatas w =
     (case PtracePeekData addr (length (BreakpointInstruction t)) w of
        (Inl err, w1) \<Rightarrow> (Some err, originalDatas, w1)
      | (Inr originalData, w1) \<Rightarrow>
          (case PtracePokeData addr instr w1 of
             (Some err, w2) \<Rightarrow> (Some err, originalDatas, w2)
           | (None, w2) \<Rightarrow> (None, AList.update addr originalData originalDatas, w2)))"

fun instrument_loop ::
  "nativeThread \<Rightarrow> uint64 list \<Rightarrow> (uintptr \<times> byte list) list \<Rightarrow> world
     \<Rightarrow> error option \<times> (uintptr \<times> byte list) list \<times> world" where
  "instrument_loop t [] originalDatas w = (None, originalDatas, w)"
| "instrument_loop t (nextPc # rest) originalDatas w =
     (case readWriteMem t (ucast nextPc) (BreakpointInstruction t) originalDatas w of
        (Some err, originalDatas', w') \<Rightarrow> (Some err, originalDatas', w')
      | (None, originalDatas', w') \<Rightarrow> instrument_loop t rest originalDatas' w')"

text \<open>The batch closure: plant a breakpoint at every candidate, then resume.\<close>

definition instrument ::
  "nativeThread \<Rightarrow> uint64 list \<Rightarrow> world \<Rightarrow> error option \<times> (uintptr \<times> byte list) list \<times> world" where
  "instrument t nextPcs w =
     (case instrument_loop t nextPcs [] w of
        (Some err, originalDatas, w1) \<Rightarrow> (Some err, originalDatas, w1)
      | (None, originalDatas, w1) \<Rightarrow>
          (case ptraceCont w1 of (err, w2) \<Rightarrow> (err, originalDatas, w2)))"

text \<open>
  The deferred function: it runs after the \<^verbatim>\<open>return\<close> statement has stored its value
  in the named result \<^verbatim>\<open>err\<close>, and assigns the result of every write to that same
  \<^verbatim>\<open>err\<close>. Every stored value was made by \<^verbatim>\<open>make\<close>, so the nil test always passes.
\<close>

fun restore_loop :: "(uintptr \<times> byte list) list \<Rightarrow> error option \<Rightarrow> world \<Rightarrow> error option \<times> world" where
  "restore_loop [] err w = (err, w)"
| "restore_loop ((addr, originalData) # rest) err w =
     (case PtracePokeData addr originalData w of (err', w') \<Rightarrow> restore_loop rest err' w')"

definition deferred_restore ::
  "nativeThread \<Rightarrow> (uintptr \<times> byte list) list \<Rightarrow> error option \<Rightarrow> world \<Rightarrow> error option \<times> world" where
  "deferred_restore t originalDatas err w = restore_loop (rangeOrder t originalDatas) err w"

text \<open>
  The wait loop, over the script of wait results. \<open>None\<close>: the script is exhausted and the
  wait never returns. Dereferencing a nil status in \<^verbatim>\<open>status.StopSignal()\<close> panics.
\<close>

fun waitLoop :: "nativeThread \<Rightarrow> wait_result list \<Rightarrow> world \<Rightarrow> (error option outcome \<times> world) option" where
  "waitLoop t [] w = None"
| "waitLoop t (ev # evs) w =
     (let w1 = w\<lparr>events := evs, log := log w @ [Wait]\<rparr>
      in case ev of
           Inl err \<Rightarrow> Some (Returned (Some err), w1)
         | Inr (wpid, status) \<Rightarrow>
             if (case status of None \<Rightarrow> True | Some s \<Rightarrow> Exited s) \<and> wpid = dbp_pid t then
               (let w2 = w1\<lparr>log := log w1 @ [PostExit]\<rparr>;
                    rs = (case status of None \<Rightarrow> 0 | Some s \<Rightarrow> ExitStatus s)
                in Some (Returned (Some (ErrProcessExited (dbp_pid t) rs)), w2))
             else if wpid = ID t then
               (case status of
                  None \<Rightarrow> Some (Panicked, w1)
                | Some s \<Rightarrow> if StopSignal s = SIGTRAP then Some (Returned None, w1) else waitLoop t evs w1)
             else waitLoop t evs w1)"

text \<open>The body of \<^verbatim>\<open>singleStep\<close> after the deferred function has been registered.\<close>

definition step_body :: "nativeThread \<Rightarrow> error option \<Rightarrow> world \<Rightarrow> (error option outcome \<times> world) option" where
  "step_body t err w = (if err \<noteq> None then Some (Returned err, w) else waitLoop t (events w) w)"

definition singleStep :: "nativeThread \<Rightarrow> world \<Rightarrow> (error option outcome \<times> world) option" where
  "singleStep t w =
     (case t_Registers t of
        Inl err \<Rightarrow> Some (Returned (Some err), w)
      | Inr regs \<Rightarrow>
          (case resolvePC t regs w of
             (Panicked, w1) \<Rightarrow> Some (Panicked, w1)
           | (Returned (Inl err), w1) \<Rightarrow> Some (Returned (Some err), w1)
           | (Returned (Inr nextPcs), w1) \<Rightarrow>
               (case instrument t nextPcs w1 of
                  (err, originalDatas, w2) \<Rightarrow>
                    (case step_body t err w2 of
                       None \<Rightarrow> None
                     | Some (Returned err', w3) \<Rightarrow>
                         (case deferred_restore t originalDatas err' w3 of
                            (err'', w4) \<Rightarrow> Some (Returned err'', w4))
                     | Some (Panicked, w3) \<Rightarrow>
                         (case deferred_restore t originalDatas None w3 of
                            (err'', w4) \<Rightarrow> Some (Panicked, w4))))))"

subsection \<open>Notions used in the statements\<close>

text \<open>
  A general-register write has succeeded when the helper answers nil or \<open>Errno 0\<close>; the
  floating-point write has succeeded when the system call answers errno 0.
\<close>

definition gregs_ok :: "error option \<Rightarrow> bool" where
  "gregs_ok gres = (gres = None \<or> gres = Some (Errno 0))"

text \<open>The fall-through address: the seed of \<^verbatim>\<open>nextPcs\<close>.\<close>

definition fallthrough :: "nativeThread \<Rightarrow> Registers \<Rightarrow> uint64" where
  "fallthrough t regs = PC regs + of_nat (MaxInstructionLength t)"

text \<open>A result of the switch that, when successful, extends the list it was given.\<close>

definition seeded :: "uint64 list \<Rightarrow> (error + uint64 list) outcome \<Rightarrow> bool" where
  "seeded pcs r = (case r of Returned (Inr pcs') \<Rightarrow> (\<exists>ys. pcs' = pcs @ ys) | _ \<Rightarrow> True)"

text \<open>The four instruction classes for which the switch can add a target.\<close>

definition branch_class :: "Inst \<Rightarrow> bool" where
  "branch_class ins = (Op ins \<in> {BL, BLX, B, BX})"

definition pop_pc_class :: "Inst \<Rightarrow> bool" where
  "pop_pc_class ins =
     (Op ins = POP \<and> (case Args0 ins of RegList regList \<Rightarrow> bit regList armasm_PC | _ \<Rightarrow> False))"

definition load_pc_class :: "Inst \<Rightarrow> bool" where
  "load_pc_class ins = (Op ins = LDR \<and> Args0 ins = Reg armasm_PC)"

definition arith_pc_class :: "Inst \<Rightarrow> bool" where
  "arith_pc_class ins = (Op ins \<in> {MOV, ADD} \<and> Args0 ins = Reg armasm_PC)"




definition load_word :: "(uintptr \<Rightarrow> byte) \<Rightarrow> uintptr \<Rightarrow> 32 word" where
  "load_word m a =
     ucast (m a) OR push_bit 8 (ucast (m (a + 1))) OR push_bit 16 (ucast (m (a + 2)))
       OR push_bit 24 (ucast (m (a + 3)))"

text \<open>
  The architecture's own rules, written from the wording of the specification ("each
  applied with their architectural semantics"): the operand shifts of 32-bit ARM act on a
  32-bit register value; the signed right shift copies the sign bit, the rotation is a
  32-bit rotation, and rotate-right-with-extend shifts right by one and inserts the carry
  flag at bit 31. \<open>arm_ldr_address\<close> is the effective address of a load with a register or
  immediate offset, for the register file \<open>R\<close> and carry flag \<open>carry\<close>.
\<close>

definition arm_Shift :: "Shift \<Rightarrow> nat \<Rightarrow> bool \<Rightarrow> 32 word \<Rightarrow> 32 word" where
  "arm_Shift ty amount carry v =
     (case ty of
        ShiftLeft \<Rightarrow> push_bit amount v
      | ShiftRight \<Rightarrow> drop_bit amount v
      | ShiftRightSigned \<Rightarrow> signed_drop_bit amount v
      | RotateRight \<Rightarrow> word_rotr amount v
      | RotateRightExt \<Rightarrow> (if carry then push_bit 31 1 else 0) OR drop_bit 1 v)"

definition arm_ldr_address :: "(nat \<Rightarrow> 32 word) \<Rightarrow> bool \<Rightarrow> Mem \<Rightarrow> 32 word" where
  "arm_ldr_address R carry arg =
     (if Mode arg = AddrOffset \<or> Mode arg = AddrPreIndex then
        if Sign arg \<noteq> 0 then
          (if Sign arg < 0
           then R (Base arg) - arm_Shift (Shift arg) (unat (Count arg)) carry (R (Index arg))
           else R (Base arg) + arm_Shift (Shift arg) (unat (Count arg)) carry (R (Index arg)))
        else R (Base arg) + scast (Offset arg)
      else R (Base arg))"

text \<open>
  The architecture's target of a branch or branch-with-link to a label: the address of
  the instruction plus 8 plus four times the signed 24-bit field of the instruction word.
\<close>

definition arm_branch_target :: "uint64 \<Rightarrow> 32 word \<Rightarrow> uint64" where
  "arm_branch_target pc x = pc + 8 + word_of_int (4 * sint (ucast x :: 24 word))"

text \<open>
  Requests that only read the tracee's memory, and the relation between two states of the
  environment that differ by such requests alone.
\<close>

fun is_peek :: "call \<Rightarrow> bool" where
  "is_peek (PeekData a n) = True"
| "is_peek c = False"

definition peeks_only :: "world \<Rightarrow> world \<Rightarrow> bool" where
  "peeks_only w w' = (mem w' = mem w \<and> (\<exists>cs. log w' = log w @ cs \<and> list_all is_peek cs))"

text \<open>
  The addresses covered by \<open>n\<close> bytes at \<open>a\<close>, the addresses covered by a set of such
  blocks, and a list of block addresses no two of which overlap. \<open>saved_from\<close>: every
  entry of the map holds the bytes the memory \<open>m0\<close> has at its address. \<open>planted\<close>: no
  request fails, the map holds original bytes, and the memory differs from \<open>m0\<close> at most
  on the blocks of the map's keys.
\<close>

definition region :: "nat \<Rightarrow> uintptr \<Rightarrow> uintptr set" where
  "region n a = (\<lambda>i. a + of_nat i) ` {..<n}"

definition regions :: "nat \<Rightarrow> uintptr set \<Rightarrow> uintptr set" where
  "regions n A = \<Union> (region n ` A)"

fun non_overlapping :: "nat \<Rightarrow> uintptr list \<Rightarrow> bool" where
  "non_overlapping n [] = True"
| "non_overlapping n (a # as) = (region n a \<inter> regions n (set as) = {} \<and> non_overlapping n as)"

definition saved_from :: "(uintptr \<Rightarrow> byte) \<Rightarrow> nat \<Rightarrow> (uintptr \<times> byte list) list \<Rightarrow> bool" where
  "saved_from m0 n originalDatas = (\<forall>p \<in> set originalDatas. snd p = read_bytes m0 (fst p) n)"

definition planted :: "(uintptr \<Rightarrow> byte) \<Rightarrow> nat \<Rightarrow> (uintptr \<times> byte list) list \<Rightarrow> world \<Rightarrow> bool" where
  "planted m0 n originalDatas w =
     (faults w = [] \<and> saved_from m0 n originalDatas
      \<and> (\<forall>x. x \<notin> regions n (fst ` set originalDatas) \<longrightarrow> mem w x = m0 x))"

text \<open>
  Wait results: the exit of the process (the guard of the first \<^verbatim>\<open>if\<close> of the wait
  loop), a trap of the stepped thread (the guard of the second), and the environment after
  one more call of the wait primitive.
\<close>

definition process_exit_event :: "nativeThread \<Rightarrow> int \<times> WaitStatus option \<Rightarrow> bool" where
  "process_exit_event t ev =
     (fst ev = dbp_pid t \<and> (case snd ev of None \<Rightarrow> True | Some s \<Rightarrow> Exited s))"

definition trap_event :: "nativeThread \<Rightarrow> wait_result \<Rightarrow> bool" where
  "trap_event t ev =
     (case ev of
        Inl err \<Rightarrow> False
      | Inr (wpid, status) \<Rightarrow>
          wpid = ID t \<and> (case status of None \<Rightarrow> False | Some s \<Rightarrow> StopSignal s = SIGTRAP))"

definition waited :: "world \<Rightarrow> wait_result list \<Rightarrow> world" where
  "waited w evs = w\<lparr>events := evs, log := log w @ [Wait]\<rparr>"

text \<open>Projections of the result of a step.\<close>

definition step_result :: "(error option outcome \<times> world) option \<Rightarrow> error option outcome option" where
  "step_result r = map_option fst r"

definition bytes_after ::
  "(error option outcome \<times> world) option \<Rightarrow> uintptr \<Rightarrow> nat \<Rightarrow> byte list option" where
  "bytes_after r a n = map_option (\<lambda>p. read_bytes (mem (snd p)) a n) r"

definition log_after :: "(error option outcome \<times> world) option \<Rightarrow> call list option" where
  "log_after r = map_option (\<lambda>p. log (snd p)) r"

subsection \<open>Concrete runs\<close>

text \<open>
  A thread of id 100 in the process 100, stopped at 0x1000 with the link register holding
  0x1004 and the stack pointer 0x8000; four-byte instructions and the four-byte breakpoint
  encoding; the decoder answers with the given instruction; a map is visited in the order
  of its association list. The memory holds 0x11 everywhere.
\<close>

definition ex_regs :: Registers where
  "ex_regs = \<lparr>PC = 0x1000,
     Get = (\<lambda>n. if n = 14 then Inr 0x1004 else if n = 13 then Inr 0x8000 else Inr 0)\<rparr>"

definition ex_inst :: "Op \<Rightarrow> Arg \<Rightarrow> Arg \<Rightarrow> Inst" where
  "ex_inst op a0 a1 = \<lparr>Op = op, Args0 = a0, Args1 = a1, Args2 = NoArg, Args3 = NoArg\<rparr>"

definition ex_bkpt :: "byte list" where
  "ex_bkpt = [0xf0, 0x01, 0xf0, 0xe7]"

definition ex_thread :: "int \<Rightarrow> Registers \<Rightarrow> Inst \<Rightarrow> nativeThread" where
  "ex_thread tid regs ins =
     \<lparr>ID = tid, dbp_pid = 100, MaxInstructionLength = 4, BreakpointInstruction = ex_bkpt,
      t_Registers = Inr regs, Decode = (\<lambda>bs. Inr ins), rangeOrder = (\<lambda>m. m)\<rparr>"

definition ex_world :: "error option list \<Rightarrow> wait_result list \<Rightarrow> world" where
  "ex_world fs evs = \<lparr>mem = (\<lambda>a. 0x11), faults = fs, events = evs, log = []\<rparr>"

text \<open>A trap of thread \<open>tid\<close>, and the exit of the process with status 3.\<close>

definition ex_trap :: "int \<Rightarrow> wait_result" where
  "ex_trap tid = Inr (tid, Some \<lparr>Exited = False, ExitStatus = - 1, StopSignal = 5\<rparr>)"

definition ex_exit :: wait_result where
  "ex_exit = Inr (100, Some \<lparr>Exited = True, ExitStatus = 3, StopSignal = - 1\<rparr>)"

text \<open>
  \<^verbatim>\<open>LDR PC, [R1, R2, ASR #4]\<close> and \<^verbatim>\<open>LDR PC, [R1, R2, ROR #8]\<close> with R1 = 0x2000 and
  R2 = 0xFFFFFFC0 (that is, -64); the word at 0x1FFC is 0x3000.
\<close>

definition ex_R :: "nat \<Rightarrow> 32 word" where
  "ex_R n = (if n = 1 then 0x2000 else if n = 2 then 0xFFFFFFC0 else if n = 15 then 0x1000 else 0)"

definition ex_ldr_regs :: Registers where
  "ex_ldr_regs = \<lparr>PC = 0x1000, Get = (\<lambda>n. Inr (ucast (ex_R (nat n))))\<rparr>"

definition ex_mem_arg :: "Shift \<Rightarrow> 8 word \<Rightarrow> Mem" where
  "ex_mem_arg sh c =
     \<lparr>Base = 1, Mode = AddrOffset, Sign = 1, Index = 2, Shift = sh, Count = c, Offset = 0\<rparr>"

definition ex_ldr_world :: world where
  "ex_ldr_world =
     \<lparr>mem = (\<lambda>a. if a = 0x1FFC then 0 else if a = 0x1FFD then 0x30
                 else if a = 0x1FFE then 0 else if a = 0x1FFF then 0 else 0x11),
      faults = [], events = [], log = []\<rparr>"

text \<open>
  The decoder on the two encodings \<^verbatim>\<open>B\<close> and \<^verbatim>\<open>BL\<close> to a label (condition, the bits
  101, the link bit, a 24-bit field), as the package \<^verbatim>\<open>armasm\<close> decodes them; the package
  is not part of the repository. The unconditional forms (condition 14) get the tags
  \<^verbatim>\<open>B\<close> and \<^verbatim>\<open>BL\<close>; a conditional form such as \<^verbatim>\<open>B_EQ\<close> gets a tag of its own. The
  operand is a \<^verbatim>\<open>PCRel\<close>: \<^verbatim>\<open>int32(imm<<6) >> 6\<close> for \<^verbatim>\<open>imm = (x & (1<<24 - 1)) << 2\<close>,
  an offset that counts from the address of the instruction plus 8. Every other word is
  outside what this example decoder knows. The thread is the one above with this decoder,
  and the memory holds the given code bytes at 0x1000.
\<close>

definition label24 :: "32 word \<Rightarrow> 32 word" where
  "label24 x = signed_drop_bit 6 (push_bit 6 (push_bit 2 (x AND 0xFFFFFF)))"

definition ex_decode_branch :: "byte list \<Rightarrow> error + Inst" where
  "ex_decode_branch bs =
     (case Uint32 bs of
        None \<Rightarrow> Inl (ErrOther ''truncated'')
      | Some x \<Rightarrow>
          if drop_bit 25 x AND 7 = 5 \<and> drop_bit 28 x \<noteq> 15 then
            Inr \<lparr>Op = (if drop_bit 28 x = 14 then (if bit x 24 then BL else B)
                        else OtherOp (unat (drop_bit 28 x) + (if bit x 24 then 16 else 0))),
                 Args0 = PCRel (label24 x), Args1 = NoArg, Args2 = NoArg, Args3 = NoArg\<rparr>
          else Inl (ErrOther ''not a branch to a label''))"

definition ex_branch_thread :: nativeThread where
  "ex_branch_thread =
     \<lparr>ID = 100, dbp_pid = 100, MaxInstructionLength = 4, BreakpointInstruction = ex_bkpt,
      t_Registers = Inr ex_regs, Decode = ex_decode_branch, rangeOrder = (\<lambda>m. m)\<rparr>"

definition ex_code_world :: "byte list \<Rightarrow> wait_result list \<Rightarrow> world" where
  "ex_code_world code evs =
     \<lparr>mem = write_bytes 0x1000 code (\<lambda>a. 0x11), faults = [], events = evs, log = []\<rparr>"

section \<open>Properties\<close>

subsection \<open>Auxiliary facts\<close>

lemma request_frame:
  "request c w = (r, w') \<Longrightarrow> mem w' = mem w \<and> log w' = log w @ [c] \<and> events w' = events w"
  by (auto simp: request_def split: list.splits)

lemma PtracePeekData_frame:
  "PtracePeekData a n w = (r, w') \<Longrightarrow>
   mem w' = mem w \<and> log w' = log w @ [PeekData a n] \<and> events w' = events w"
  by (auto simp: PtracePeekData_def split: prod.splits option.splits dest: request_frame)


lemma peeks_only_refl: "peeks_only w w"
  by (simp add: peeks_only_def)

lemma peeks_only_trans: "peeks_only w w1 \<Longrightarrow> peeks_only w1 w2 \<Longrightarrow> peeks_only w w2"
  by (auto simp: peeks_only_def)

lemma PtracePeekData_peeks_only: "peeks_only w (snd (PtracePeekData a n w))"
  using PtracePeekData_frame [of a n w]
  by (cases "PtracePeekData a n w") (simp add: peeks_only_def)

lemma load_target_frame: "peeks_only w (snd (load_target pc n pcs w))"
proof (cases "PtracePeekData (ucast pc) n w")
  case (Pair r w')
  then show ?thesis
    using PtracePeekData_frame [OF Pair]
    by (cases r) (auto simp: load_target_def peeks_only_def split: option.splits)
qed

lemma case_pop_frame: "peeks_only w (snd (case_pop n regs ins pcs w))"
  by (simp add: case_pop_def load_target_frame peeks_only_refl split: Arg.split sum.split)

lemma case_ldr_frame: "peeks_only w (snd (case_ldr n regs ins pcs w))"
  by (simp add: case_ldr_def load_target_frame peeks_only_refl split: Arg.split sum.split)

lemma resolve_switch_frame: "peeks_only w (snd (resolve_switch n regs ins pcs w))"
  by (simp add: resolve_switch_def case_pop_frame case_ldr_frame peeks_only_refl)

lemma resolvePC_unfold:
  "PtracePeekData (ucast (PC regs)) (MaxInstructionLength t) w = (Inr bs, w1) \<Longrightarrow>
   Decode t bs = Inr ins \<Longrightarrow>
   resolvePC t regs w = resolve_switch (MaxInstructionLength t) regs ins [fallthrough t regs] w1"
  by (simp add: resolvePC_def Let_def fallthrough_def)

lemma resolvePC_frame: "peeks_only w (snd (resolvePC t regs w))"
proof (cases "PtracePeekData (ucast (PC regs)) (MaxInstructionLength t) w")
  case (Pair r w1)
  have w1: "peeks_only w w1"
    using PtracePeekData_peeks_only [of w "ucast (PC regs)" "MaxInstructionLength t"] Pair
    by simp
  show ?thesis
  proof (cases r)
    case (Inl e)
    then show ?thesis using Pair w1 by (simp add: resolvePC_def)
  next
    case (Inr bs)
    show ?thesis
    proof (cases "Decode t bs")
      case (Inl e)
      then show ?thesis using Pair Inr w1 by (simp add: resolvePC_def)
    next
      case (Inr ins)
      then show ?thesis
        using Pair \<open>r = Inr bs\<close> peeks_only_trans [OF w1 resolve_switch_frame]
        by (simp add: resolvePC_unfold)
    qed
  qed
qed

lemma seeded_refl: "seeded pcs (Returned (Inr pcs))"
  by (simp add: seeded_def)

lemma seeded_Inl: "seeded pcs (Returned (Inl e))"
  by (simp add: seeded_def)

lemma case_branch_seed: "seeded pcs (Returned (case_branch regs ins pcs))"
  by (simp add: case_branch_def seeded_def split: Arg.split sum.split)

lemma load_target_seed: "seeded pcs (fst (load_target pc n pcs w))"
  by (simp add: load_target_def seeded_def split: prod.split sum.split option.split)

lemma case_pop_seed: "seeded pcs (fst (case_pop n regs ins pcs w))"
  by (simp add: case_pop_def load_target_seed seeded_refl seeded_Inl split: Arg.split sum.split)

lemma case_ldr_seed: "seeded pcs (fst (case_ldr n regs ins pcs w))"
  by (simp add: case_ldr_def load_target_seed seeded_refl seeded_Inl split: Arg.split sum.split)

lemma case_arith_seed: "seeded pcs (Returned (case_arith regs ins pcs))"
  by (simp add: case_arith_def seeded_def split: sum.split)

lemma resolve_switch_seed: "seeded pcs (fst (resolve_switch n regs ins pcs w))"
  by (simp add: resolve_switch_def case_branch_seed case_pop_seed case_ldr_seed case_arith_seed
      seeded_refl)

lemma resolvePC_seed:
  assumes a: "resolvePC t regs w = (Returned (Inr pcs'), w')"
  shows "\<exists>ys. pcs' = fallthrough t regs # ys"
proof -
  obtain r w1 where p: "PtracePeekData (ucast (PC regs)) (MaxInstructionLength t) w = (r, w1)"
    by (cases "PtracePeekData (ucast (PC regs)) (MaxInstructionLength t) w") simp
  from a p obtain bs where r: "r = Inr bs"
    by (cases r) (simp_all add: resolvePC_def)
  from a p r obtain ins where d: "Decode t bs = Inr ins"
    by (cases "Decode t bs") (simp_all add: resolvePC_def)
  from a p r d
  have "resolve_switch (MaxInstructionLength t) regs ins [fallthrough t regs] w1
          = (Returned (Inr pcs'), w')"
    by (simp add: resolvePC_unfold)
  then show ?thesis
    using resolve_switch_seed [of "[fallthrough t regs]" "MaxInstructionLength t" regs ins w1]
    by (simp add: seeded_def)
qed

lemma pc_bit: "(regList AND push_bit i 1 \<noteq> 0) = bit (regList :: 16 word) i"
  by (simp only: bit_iff_and_push_bit_not_eq_0)

lemma pc_bit2: "(regList AND 2 ^ i \<noteq> 0) = bit (regList :: 16 word) i"
  using pc_bit [of regList i] by simp

lemma resolve_switch_other:
  "\<not> branch_class ins \<Longrightarrow> \<not> pop_pc_class ins \<Longrightarrow> \<not> load_pc_class ins \<Longrightarrow> \<not> arith_pc_class ins
   \<Longrightarrow> resolve_switch n regs ins pcs w = (Returned (Inr pcs), w)"
  by (cases "Args0 ins")
     (auto simp: resolve_switch_def case_pop_def case_ldr_def case_arith_def branch_class_def
        pop_pc_class_def load_pc_class_def arith_pc_class_def pc_bit2)



lemma read_bytes_4: "read_bytes m a 4 = [m a, m (a + 1), m (a + 2), m (a + 3)]"
proof -
  have "[0..<4] = [0, 1, 2, 3]" by (simp add: upt_rec)
  then show ?thesis by (simp add: read_bytes_def)
qed




text \<open>
  The wait loop by itself: an event for another id that is not the exit of the process
  makes the wait repeat, and the loop takes its \<^verbatim>\<open>return nil\<close> only at a trap of the
  stepped thread.
\<close>

lemma waitLoop_repeats:
  "wpid \<noteq> ID t \<Longrightarrow> \<not> process_exit_event t (wpid, status) \<Longrightarrow>
   waitLoop t (Inr (wpid, status) # evs) w = waitLoop t evs (waited w evs)"
  by (auto simp: process_exit_event_def waited_def Let_def split: option.splits)

lemma waitLoop_success:
  "waitLoop t evs w = Some (Returned None, w') \<Longrightarrow>
   \<exists>pre ev. evs = pre @ ev # events w' \<and> trap_event t ev"
proof (induction evs arbitrary: w)
  case Nil
  then show ?case by simp
next
  case (Cons ev evs)
  let ?w1 = "w\<lparr>events := evs, log := log w @ [Wait]\<rparr>"
  show ?case
  proof (cases "waitLoop t evs ?w1 = Some (Returned None, w')")
    case True
    then obtain pre ev' where "evs = pre @ ev' # events w'" "trap_event t ev'"
      using Cons.IH by blast
    then have "ev # evs = (ev # pre) @ ev' # events w'" by simp
    then show ?thesis using \<open>trap_event t ev'\<close> by blast
  next
    case False
    then have "trap_event t ev \<and> events w' = evs"
      using Cons.prems
      by (auto simp: trap_event_def Let_def split: sum.splits prod.splits option.splits if_splits)
    then have "ev # evs = [] @ ev # events w'" "trap_event t ev" by simp_all
    then show ?thesis by blast
  qed
qed

lemma ex_fetch:
  "PtracePeekData (ucast (PC ex_regs)) (MaxInstructionLength (ex_thread tid ex_regs ins)) (ex_world [] evs)
     = (Inr [0x11, 0x11, 0x11, 0x11], (ex_world [] evs)\<lparr>log := [PeekData 0x1000 4]\<rparr>)"
  by (simp add: PtracePeekData_def request_def ex_world_def ex_thread_def ex_regs_def read_bytes_4)

subsection \<open>Register restore\<close>

text \<open>
  C9. \<^verbatim>\<open>restoreRegisters\<close> issues the general-register write first (it is the first
  request added to the log, and at most the floating-point write follows it). If the
  general-register write fails, nothing else is attempted and that failure is returned.
  If the saved floating-point block is absent, no floating-point write is attempted and the
  call succeeds when the general-register write did. The call returns nil exactly when
  every write it attempted succeeded. The block, when present, is assumed non-empty: the
  code takes the address of its first byte, which panics on an empty slice.
\<close>

theorem restoreRegisters_order_and_result:
  assumes "Fpregset \<noteq> Some []"
  shows "\<exists>rest. snd (restoreRegisters Fpregset gres fres lg) = lg @ SetGRegs # rest
       \<and> (rest = [] \<or> (\<exists>bs. Fpregset = Some bs \<and> rest = [SetFpRegs (length bs)]))
       \<and> (\<not> gregs_ok gres \<longrightarrow>
            rest = [] \<and> fst (restoreRegisters Fpregset gres fres lg) = Returned gres)
       \<and> (Fpregset = None \<longrightarrow>
            rest = [] \<and> (fst (restoreRegisters Fpregset gres fres lg) = Returned None \<longleftrightarrow> gregs_ok gres))
       \<and> (fst (restoreRegisters Fpregset gres fres lg) = Returned None
            \<longleftrightarrow> gregs_ok gres \<and> (rest \<noteq> [] \<longrightarrow> fres = 0))"
  using assms
  by (cases Fpregset; cases "the Fpregset")
     (auto simp: restoreRegisters_def restoreRegisters_closure_def gregs_ok_def Let_def)

text \<open>The theorem at a two-byte block: both writes succeed; the general-register write fails.\<close>

theorem restoreRegisters_order_and_result_witness:
  "Some [1, 2 :: byte] \<noteq> Some []
   \<and> fst (restoreRegisters (Some [1, 2]) (Some (Errno 0)) 0 []) = Returned None
   \<and> fst (restoreRegisters (Some [1, 2]) (Some (Errno 3)) 0 []) = Returned (Some (Errno 3))"
  using restoreRegisters_order_and_result [of "Some [1, 2]" "Some (Errno 0)" 0 "[]"]
    restoreRegisters_order_and_result [of "Some [1, 2]" "Some (Errno 3)" 0 "[]"]
  by (auto simp: gregs_ok_def)

subsection \<open>Candidate program counters\<close>

text \<open>
  C4. Whenever \<^verbatim>\<open>resolvePC\<close> returns successfully, the returned sequence is non-empty
  and contains the fall-through address \<open>PC + MaxInstructionLength\<close> (as its first
  element); and when the fetched bytes decode to an instruction outside the branch,
  pop-with-PC, load-to-PC and arithmetic-to-PC classes, the result is exactly the
  one-element sequence of the fall-through address.
\<close>

theorem resolvePC_fallthrough:
  "(\<forall>nextPcs w'. resolvePC t regs w = (Returned (Inr nextPcs), w') \<longrightarrow>
       nextPcs \<noteq> [] \<and> hd nextPcs = fallthrough t regs \<and> fallthrough t regs \<in> set nextPcs)
   \<and> (\<forall>bs w1 ins. PtracePeekData (ucast (PC regs)) (MaxInstructionLength t) w = (Inr bs, w1)
          \<and> Decode t bs = Inr ins
          \<and> \<not> branch_class ins \<and> \<not> pop_pc_class ins \<and> \<not> load_pc_class ins \<and> \<not> arith_pc_class ins
        \<longrightarrow> resolvePC t regs w = (Returned (Inr [fallthrough t regs]), w1))"
proof (intro conjI allI impI)
  fix nextPcs w'
  assume "resolvePC t regs w = (Returned (Inr nextPcs), w')"
  then obtain ys where ys: "nextPcs = fallthrough t regs # ys"
    using resolvePC_seed by blast
  show "nextPcs \<noteq> []" "hd nextPcs = fallthrough t regs" "fallthrough t regs \<in> set nextPcs"
    using ys by simp_all
next
  fix bs w1 ins
  assume a: "PtracePeekData (ucast (PC regs)) (MaxInstructionLength t) w = (Inr bs, w1)
          \<and> Decode t bs = Inr ins
          \<and> \<not> branch_class ins \<and> \<not> pop_pc_class ins \<and> \<not> load_pc_class ins \<and> \<not> arith_pc_class ins"
  then show "resolvePC t regs w = (Returned (Inr [fallthrough t regs]), w1)"
    by (simp add: resolvePC_unfold resolve_switch_other)
qed

text \<open>The theorem at an instruction of another class, fetched at 0x1000.\<close>

theorem resolvePC_fallthrough_witness:
  "fst (resolvePC (ex_thread 100 ex_regs (ex_inst (OtherOp 0) NoArg NoArg)) ex_regs (ex_world [] []))
     = Returned (Inr [0x1004])
   \<and> hd [0x1004] = fallthrough (ex_thread 100 ex_regs (ex_inst (OtherOp 0) NoArg NoArg)) ex_regs"
proof -
  let ?t = "ex_thread 100 ex_regs (ex_inst (OtherOp 0) NoArg NoArg)"
  have d: "Decode ?t [0x11, 0x11, 0x11, 0x11] = Inr (ex_inst (OtherOp 0) NoArg NoArg)"
    by (simp add: ex_thread_def)
  have c: "\<not> branch_class (ex_inst (OtherOp 0) NoArg NoArg) \<and> \<not> pop_pc_class (ex_inst (OtherOp 0) NoArg NoArg)
         \<and> \<not> load_pc_class (ex_inst (OtherOp 0) NoArg NoArg) \<and> \<not> arith_pc_class (ex_inst (OtherOp 0) NoArg NoArg)"
    by (simp add: branch_class_def pop_pc_class_def load_pc_class_def arith_pc_class_def ex_inst_def)
  have f: "fallthrough ?t ex_regs = 0x1004"
    by (simp add: fallthrough_def ex_thread_def ex_regs_def)
  have r: "resolvePC ?t ex_regs (ex_world [] [])
            = (Returned (Inr [fallthrough ?t ex_regs]), (ex_world [] [])\<lparr>log := [PeekData 0x1000 4]\<rparr>)"
    using resolvePC_fallthrough [of ?t ex_regs "ex_world [] []"] ex_fetch [of 100 _ "[]"] d c
    by blast
  have "hd [fallthrough ?t ex_regs] = fallthrough ?t ex_regs"
    using resolvePC_fallthrough [of ?t ex_regs "ex_world [] []"] r by blast
  then show ?thesis using r f by simp
qed

text \<open>
  What the branch case computes for the operand shapes the decoder produces: a register
  whose read yields \<open>V\<close> gives the fall-through address followed by \<open>V\<close>; a
  program-counter-relative operand gives the current program counter plus the offset.
\<close>

lemma resolvePC_branch_operand:
  assumes fetch: "PtracePeekData (ucast (PC regs)) (MaxInstructionLength t) w = (Inr bs, w1)"
    and dec: "Decode t bs = Inr ins"
    and cls: "Op ins \<in> {BL, BLX, B, BX}"
  shows "(\<forall>R V. Args0 ins = Reg R \<and> Get regs (int R) = Inr V \<longrightarrow>
            resolvePC t regs w = (Returned (Inr [fallthrough t regs, V]), w1))
       \<and> (\<forall>off. Args0 ins = PCRel off \<longrightarrow>
            resolvePC t regs w = (Returned (Inr [fallthrough t regs, PC regs + scast off]), w1))"
  using fetch dec cls
  by (auto simp: resolvePC_unfold resolve_switch_def case_branch_def)

text \<open>
  C7. The word 0xEB0003FE at 0x1000 is \<^verbatim>\<open>BL 0x2000\<close>: the decoder gives the tag \<^verbatim>\<open>BL\<close>
  with the operand \<^verbatim>\<open>PCRel(0xFF8)\<close>, and the architecture's target is
  0x1000 + 8 + 0xFF8 = 0x2000. The code adds the offset to the program counter without
  the 8 and returns the candidates 0x1004 and 0x1FF8: the target 0x2000 is not among
  them. The word 0x0A0003FE is \<^verbatim>\<open>BEQ 0x2000\<close>: its tag is not one of the four the switch
  names, and the code returns the fall-through address alone.
\<close>

theorem resolvePC_branch_target_missed:
  "ex_decode_branch [0xFE, 0x03, 0x00, 0xEB] = Inr (ex_inst BL (PCRel 0xFF8) NoArg)
   \<and> arm_branch_target 0x1000 0xEB0003FE = 0x2000
   \<and> fst (resolvePC ex_branch_thread ex_regs (ex_code_world [0xFE, 0x03, 0x00, 0xEB] []))
     = Returned (Inr [0x1004, 0x1FF8])
   \<and> ex_decode_branch [0xFE, 0x03, 0x00, 0x0A] = Inr (ex_inst (OtherOp 0) (PCRel 0xFF8) NoArg)
   \<and> arm_branch_target 0x1000 0x0A0003FE = 0x2000
   \<and> fst (resolvePC ex_branch_thread ex_regs (ex_code_world [0xFE, 0x03, 0x00, 0x0A] []))
     = Returned (Inr [0x1004])"
  by code_simp



text \<open>
  On a register value extended with zeros, the code's left shift and logical right shift
  give, in the low 32 bits, what the architecture's do.
\<close>

lemma ucast_up_down: "(ucast (ucast (v :: 32 word) :: 64 word) :: 32 word) = v"
  by (rule bit_word_eqI) (auto simp: bit_simps dest: bit_imp_le_length)

lemma push_bit_up_down:
  "(ucast (push_bit n (ucast (v :: 32 word) :: 64 word)) :: 32 word) = push_bit n v"
  by (rule bit_word_eqI) (auto simp: bit_simps)

lemma drop_bit_up_down:
  "(ucast (drop_bit n (ucast (v :: 32 word) :: 64 word)) :: 32 word) = drop_bit n v"
  by (rule bit_word_eqI) (auto simp: bit_simps dest: bit_imp_le_length)

lemma shifted_index_lsl_lsr:
  "Shift arg = ShiftLeft \<or> Shift arg = ShiftRight \<Longrightarrow>
   (ucast (shifted_index arg (ucast v)) :: 32 word) = arm_Shift (Shift arg) (unat (Count arg)) c v"
  by (cases "Count arg = 0")
     (auto simp: shifted_index_def arm_Shift_def ucast_up_down push_bit_up_down drop_bit_up_down)

text \<open>
  C6. For \<^verbatim>\<open>LDR PC, [R1, R2, ASR #4]\<close> with R1 = 0x2000 and R2 = 0xFFFFFFC0 the
  architecture loads from 0x2000 + (-64 / 16) = 0x1FFC, where the word 0x3000 is stored.
  The code shifts the 64-bit value logically, reads at 0x10001FFC and appends the word
  found there instead. The rotation has the same defect: the code rotates the register
  value within 64 bits, the architecture within 32; and rotate-right-with-extend ignores
  the carry flag.
\<close>

theorem resolvePC_ldr_shift_semantics:
  "ldr_address ex_ldr_regs (ex_mem_arg ShiftRightSigned 4) = Inr 0x10001FFC
   \<and> arm_ldr_address ex_R False (ex_mem_arg ShiftRightSigned 4) = 0x1FFC
   \<and> fst (resolvePC (ex_thread 100 ex_ldr_regs (ex_inst LDR (Reg 15) (MemArg (ex_mem_arg ShiftRightSigned 4))))
         ex_ldr_regs ex_ldr_world)
     = Returned (Inr [0x1004, 0x11111111])
   \<and> log (snd (resolvePC (ex_thread 100 ex_ldr_regs (ex_inst LDR (Reg 15) (MemArg (ex_mem_arg ShiftRightSigned 4))))
         ex_ldr_regs ex_ldr_world))
     = [PeekData 0x1000 4, PeekData 0x10001FFC 4]
   \<and> load_word (mem ex_ldr_world) 0x1FFC = 0x3000
   \<and> ldr_address ex_ldr_regs (ex_mem_arg RotateRight 8) = Inr 0xC000000001001FFF
   \<and> arm_ldr_address ex_R False (ex_mem_arg RotateRight 8) = 0xC1001FFF
   \<and> ldr_address ex_ldr_regs (ex_mem_arg RotateRightExt 1) = Inr 0x80001FE0
   \<and> arm_ldr_address ex_R True (ex_mem_arg RotateRightExt 1) = 0x1FE0"
  by code_simp

subsection \<open>The emulated step\<close>

text \<open>
  C10. If \<^verbatim>\<open>singleStep\<close> fails in its prepare phase, it returns that error and has
  written nothing: when the register fetch fails the environment is untouched; when
  \<^verbatim>\<open>resolvePC\<close> fails the memory is unchanged and the only requests issued are memory
  reads (no write, no resume).
\<close>

theorem singleStep_prepare_failure:
  "(t_Registers t = Inl e \<longrightarrow> singleStep t w = Some (Returned (Some e), w))
   \<and> (\<forall>regs w1. t_Registers t = Inr regs \<and> resolvePC t regs w = (Returned (Inl e), w1) \<longrightarrow>
         singleStep t w = Some (Returned (Some e), w1) \<and> peeks_only w w1)"
proof (intro conjI allI impI)
  assume "t_Registers t = Inl e"
  then show "singleStep t w = Some (Returned (Some e), w)"
    by (simp add: singleStep_def)
next
  fix regs w1
  assume a: "t_Registers t = Inr regs \<and> resolvePC t regs w = (Returned (Inl e), w1)"
  then show "singleStep t w = Some (Returned (Some e), w1)"
    by (simp add: singleStep_def)
  show "peeks_only w w1"
    using a resolvePC_frame [of w t regs] by simp
qed

text \<open>The theorem at a failing register fetch and at a failing instruction fetch.\<close>

theorem singleStep_prepare_failure_witness:
  "step_result (singleStep ((ex_thread 100 ex_regs (ex_inst BL (Imm 0x2000) NoArg))\<lparr>t_Registers := Inl (Errno 3)\<rparr>)
       (ex_world [] [])) = Some (Returned (Some (Errno 3)))
   \<and> log_after (singleStep ((ex_thread 100 ex_regs (ex_inst BL (Imm 0x2000) NoArg))\<lparr>t_Registers := Inl (Errno 3)\<rparr>)
       (ex_world [] [])) = Some []
   \<and> step_result (singleStep (ex_thread 100 ex_regs (ex_inst BL (Imm 0x2000) NoArg))
       (ex_world [Some (Errno 5)] [])) = Some (Returned (Some (Errno 5)))
   \<and> log_after (singleStep (ex_thread 100 ex_regs (ex_inst BL (Imm 0x2000) NoArg))
       (ex_world [Some (Errno 5)] [])) = Some [PeekData 0x1000 4]"
proof -
  let ?t = "ex_thread 100 ex_regs (ex_inst BL (Imm 0x2000) NoArg)"
  have 1: "singleStep (?t\<lparr>t_Registers := Inl (Errno 3)\<rparr>) (ex_world [] [])
      = Some (Returned (Some (Errno 3)), ex_world [] [])"
    using singleStep_prepare_failure [of "?t\<lparr>t_Registers := Inl (Errno 3)\<rparr>" "Errno 3" "ex_world [] []"]
    by simp
  have r: "t_Registers ?t = Inr ex_regs"
    by (simp add: ex_thread_def)
  have p: "resolvePC ?t ex_regs (ex_world [Some (Errno 5)] [])
      = (Returned (Inl (Errno 5)), (ex_world [] [])\<lparr>log := [PeekData 0x1000 4]\<rparr>)"
    by (simp add: resolvePC_def PtracePeekData_def request_def ex_world_def ex_thread_def ex_regs_def)
  have 2: "singleStep ?t (ex_world [Some (Errno 5)] [])
      = Some (Returned (Some (Errno 5)), (ex_world [] [])\<lparr>log := [PeekData 0x1000 4]\<rparr>)"
    using singleStep_prepare_failure [of ?t "Errno 5" "ex_world [Some (Errno 5)] []"] r p
    by blast
  show ?thesis
    unfolding 1 2 by (simp add: step_result_def log_after_def ex_world_def)
qed

text \<open>
  The value stored by a \<^verbatim>\<open>return\<close> statement does not survive the deferred function
  as soon as the map of saved bytes has an entry.
\<close>

lemma restore_loop_discards:
  "xs \<noteq> [] \<Longrightarrow> restore_loop xs err w = restore_loop xs err' w"
  by (cases xs) (auto split: prod.splits)

text \<open>
  What the step does restore: when no request fails, the candidate addresses cover
  pairwise disjoint blocks, and the \<^verbatim>\<open>range\<close> loop visits exactly the entries of the
  map, the memory after a step that returns is the memory before it.
\<close>

lemma region_Suc: "region (Suc n) a = insert a (region n (a + 1))"
proof -
  have "{..<Suc n} = insert 0 (Suc ` {..<n})"
    by (auto simp: lessThan_Suc_eq_insert_0)
  then show ?thesis
    by (simp add: region_def image_image ac_simps)
qed

lemma read_bytes_Suc: "read_bytes m a (Suc n) = m a # read_bytes m (a + 1) n"
proof -
  have "[0..<Suc n] = 0 # map Suc [0..<n]"
    by (simp add: upt_conv_Cons map_Suc_upt del: upt_Suc)
  then show ?thesis
    by (simp add: read_bytes_def comp_def ac_simps del: upt_Suc)
qed

lemma write_bytes_outside: "x \<notin> region (length bs) a \<Longrightarrow> write_bytes a bs m x = m x"
  by (induction bs arbitrary: a m) (auto simp: region_Suc)

lemma write_bytes_read:
  "write_bytes a (read_bytes m0 a n) m x = (if x \<in> region n a then m0 x else m x)"
proof (induction n arbitrary: a m)
  case 0
  then show ?case by (simp add: read_bytes_def region_def)
next
  case (Suc n)
  then show ?case by (simp add: read_bytes_Suc region_Suc)
qed

lemma read_bytes_cong:
  "(\<And>x. x \<in> region n a \<Longrightarrow> m x = m' x) \<Longrightarrow> read_bytes m a n = read_bytes m' a n"
  by (auto simp: read_bytes_def region_def)

lemma request_ok:
  "faults w = [] \<Longrightarrow> request c w = (None, w\<lparr>log := log w @ [c]\<rparr>)"
  by (simp add: request_def)

lemma PtracePeekData_ok:
  "faults w = [] \<Longrightarrow> PtracePeekData a n w = (Inr (read_bytes (mem w) a n), w\<lparr>log := log w @ [PeekData a n]\<rparr>)"
  by (simp add: PtracePeekData_def request_ok)

lemma PtracePokeData_ok:
  "faults w = [] \<Longrightarrow>
   PtracePokeData a bs w = (None, w\<lparr>log := log w @ [PokeData a bs], mem := write_bytes a bs (mem w)\<rparr>)"
  by (simp add: PtracePokeData_def request_ok)

lemma restore_loop_mem:
  "faults w = [] \<Longrightarrow> saved_from m0 n xs \<Longrightarrow>
   mem (snd (restore_loop xs e w)) x = (if x \<in> regions n (fst ` set xs) then m0 x else mem w x)"
proof (induction xs arbitrary: e w)
  case Nil
  then show ?case by (simp add: regions_def)
next
  case (Cons p xs)
  obtain a d where p: "p = (a, d)" by (cases p)
  have d: "d = read_bytes m0 a n" and rest: "saved_from m0 n xs"
    using Cons.prems(2) p by (simp_all add: saved_from_def)
  let ?w' = "w\<lparr>log := log w @ [PokeData a d], mem := write_bytes a d (mem w)\<rparr>"
  have "mem (snd (restore_loop xs None ?w')) x
          = (if x \<in> regions n (fst ` set xs) then m0 x else mem ?w' x)"
    using Cons.IH [of ?w' None] Cons.prems(1) rest by simp
  then show ?case
    using Cons.prems(1) p d by (simp add: PtracePokeData_ok write_bytes_read regions_def)
qed


lemma set_update_subset: "set (AList.update a d od) \<subseteq> insert (a, d) (set od)"
  by (induction od) auto

lemma keys_update: "fst ` set (AList.update a d od) = insert a (fst ` set od)"
  using dom_update [of a d od] by simp

lemma readWriteMem_planted:
  assumes inv: "planted m0 n od w"
    and n: "n = length (BreakpointInstruction t)"
    and dis: "region n a \<inter> regions n (fst ` set od) = {}"
  shows "\<exists>od' w'. readWriteMem t a (BreakpointInstruction t) od w = (None, od', w')
           \<and> planted m0 n od' w' \<and> fst ` set od' = insert a (fst ` set od)"
proof -
  let ?d = "read_bytes (mem w) a n"
  let ?w1 = "w\<lparr>log := log w @ [PeekData a n]\<rparr>"
  let ?w2 = "?w1\<lparr>log := log ?w1 @ [PokeData a (BreakpointInstruction t)],
                 mem := write_bytes a (BreakpointInstruction t) (mem ?w1)\<rparr>"
  have f: "faults w = []" using inv by (simp add: planted_def)
  have rw: "readWriteMem t a (BreakpointInstruction t) od w = (None, AList.update a ?d od, ?w2)"
    using f n by (simp add: readWriteMem_def PtracePeekData_ok PtracePokeData_ok)
  have d: "?d = read_bytes m0 a n"
  proof (rule read_bytes_cong)
    fix x assume "x \<in> region n a"
    then have "x \<notin> regions n (fst ` set od)" using dis by auto
    then show "mem w x = m0 x" using inv by (simp add: planted_def)
  qed
  have s: "saved_from m0 n (AList.update a ?d od)"
    using inv d set_update_subset [of a ?d od] by (auto simp: planted_def saved_from_def)
  have m: "\<forall>x. x \<notin> regions n (fst ` set (AList.update a ?d od)) \<longrightarrow> mem ?w2 x = m0 x"
  proof (intro allI impI)
    fix x assume x: "x \<notin> regions n (fst ` set (AList.update a ?d od))"
    then have 1: "x \<notin> region n a" and 2: "x \<notin> regions n (fst ` set od)"
      by (auto simp: keys_update regions_def)
    show "mem ?w2 x = m0 x"
      using 1 2 inv n by (simp add: write_bytes_outside planted_def)
  qed
  show ?thesis
    using rw s m f by (simp add: planted_def keys_update)
qed

lemma instrument_loop_planted:
  "planted m0 n od w \<Longrightarrow> n = length (BreakpointInstruction t) \<Longrightarrow>
   non_overlapping n (map ucast nextPcs) \<Longrightarrow>
   regions n (set (map ucast nextPcs)) \<inter> regions n (fst ` set od) = {} \<Longrightarrow>
   \<exists>od' w'. instrument_loop t nextPcs od w = (None, od', w') \<and> planted m0 n od' w'
      \<and> fst ` set od' = set (map ucast nextPcs) \<union> fst ` set od"
proof (induction nextPcs arbitrary: od w)
  case Nil
  then show ?case by simp
next
  case (Cons pc pcs)
  let ?a = "ucast pc :: uintptr"
  have dis: "region n ?a \<inter> regions n (fst ` set od) = {}"
    using Cons.prems(4) by (auto simp: regions_def)
  obtain od1 w1 where rw: "readWriteMem t ?a (BreakpointInstruction t) od w = (None, od1, w1)"
    and inv1: "planted m0 n od1 w1" and k1: "fst ` set od1 = insert ?a (fst ` set od)"
    using readWriteMem_planted [OF Cons.prems(1) Cons.prems(2) dis] by blast
  have no: "non_overlapping n (map ucast pcs)"
    using Cons.prems(3) by simp
  have "regions n (set (map ucast pcs)) \<inter> region n ?a = {}"
    using Cons.prems(3) by auto
  then have dis1: "regions n (set (map ucast pcs)) \<inter> regions n (fst ` set od1) = {}"
    using Cons.prems(4) k1 by (auto simp: regions_def)
  obtain od' w' where "instrument_loop t pcs od1 w1 = (None, od', w')" "planted m0 n od' w'"
    "fst ` set od' = set (map ucast pcs) \<union> fst ` set od1"
    using Cons.IH [OF inv1 Cons.prems(2) no dis1] by blast
  then show ?case
    using rw k1 by auto
qed


lemma PtracePeekData_faults: "faults w = [] \<Longrightarrow> faults (snd (PtracePeekData a n w)) = []"
  by (simp add: PtracePeekData_ok)

lemma load_target_faults: "faults w = [] \<Longrightarrow> faults (snd (load_target pc n pcs w)) = []"
  by (simp add: load_target_def PtracePeekData_ok split: option.split)

lemma case_pop_faults: "faults w = [] \<Longrightarrow> faults (snd (case_pop n regs ins pcs w)) = []"
  by (simp add: case_pop_def load_target_faults split: Arg.split sum.split)

lemma case_ldr_faults: "faults w = [] \<Longrightarrow> faults (snd (case_ldr n regs ins pcs w)) = []"
  by (simp add: case_ldr_def load_target_faults split: Arg.split sum.split)

lemma resolve_switch_faults:
  "faults w = [] \<Longrightarrow> faults (snd (resolve_switch n regs ins pcs w)) = []"
  by (simp add: resolve_switch_def case_pop_faults case_ldr_faults)

lemma resolvePC_faults: "faults w = [] \<Longrightarrow> faults (snd (resolvePC t regs w)) = []"
  by (simp add: resolvePC_def Let_def PtracePeekData_ok resolve_switch_faults split: sum.split)

lemma waitLoop_frame:
  "waitLoop t evs w = Some (r, w') \<Longrightarrow> mem w' = mem w \<and> faults w' = faults w"
  by (induction evs arbitrary: w)
     (auto simp: Let_def split: sum.splits prod.splits option.splits if_splits)

lemma singleStep_restores_memory:
  assumes ok: "faults w = []"
    and regs: "t_Registers t = Inr regs"
    and pcs: "resolvePC t regs w = (Returned (Inr nextPcs), w1)"
    and no: "non_overlapping (length (BreakpointInstruction t)) (map ucast nextPcs)"
    and ord: "\<And>m. set (rangeOrder t m) = set m"
    and ret: "singleStep t w = Some (r, w')"
  shows "mem w' = mem w"
proof -
  let ?n = "length (BreakpointInstruction t)"
  have m1: "mem w1 = mem w"
    using resolvePC_frame [of w t regs] pcs by (simp add: peeks_only_def)
  have f1: "faults w1 = []"
    using resolvePC_faults [OF ok, of t regs] pcs by simp
  have p1: "planted (mem w) ?n [] w1"
    using m1 f1 by (simp add: planted_def saved_from_def)
  obtain od w2 where il: "instrument_loop t nextPcs [] w1 = (None, od, w2)"
    and p2: "planted (mem w) ?n od w2"
    and k2: "fst ` set od = set (map ucast nextPcs)"
    using instrument_loop_planted [OF p1 refl no] by (auto simp: regions_def)
  let ?w2 = "w2\<lparr>log := log w2 @ [Cont]\<rparr>"
  have f2: "faults w2 = []" using p2 by (simp add: planted_def)
  have ins: "instrument t nextPcs w1 = (None, od, ?w2)"
    using il f2 by (simp add: instrument_def ptraceCont_def request_ok)
  obtain r0 w3 where wl: "step_body t None ?w2 = Some (r0, w3)"
    using ret regs pcs ins by (cases "step_body t None ?w2") (auto simp: singleStep_def)
  have fr: "mem w3 = mem w2 \<and> faults w3 = []"
    using wl waitLoop_frame [of t "events ?w2" ?w2 r0 w3] f2 by (simp add: step_body_def)
  have s: "saved_from (mem w) ?n (rangeOrder t od)"
    using p2 ord by (simp add: planted_def saved_from_def)
  have out: "\<forall>x. x \<notin> regions ?n (fst ` set od) \<longrightarrow> mem w3 x = mem w x"
    using p2 fr by (simp add: planted_def)
  have fin: "mem w'' = mem w" if "restore_loop (rangeOrder t od) e w3 = (e', w'')" for e e' w''
  proof
    fix x
    show "mem w'' x = mem w x"
      using restore_loop_mem [of w3 "mem w" ?n "rangeOrder t od" e x] fr s out ord that by simp
  qed
  show ?thesis
    using ret regs pcs ins wl fin
    by (cases r0) (auto simp: singleStep_def deferred_restore_def split: prod.splits)
qed

text \<open>The lemma at a branch-with-link from 0x1000 to 0x2000.\<close>

lemma ex_non_overlapping: "non_overlapping 4 (map ucast [0x1004, 0x2000 :: uint64])"
  by (simp add: region_def regions_def lessThan_nat_numeral lessThan_Suc)

lemma singleStep_restores_memory_instance:
  "map_option (\<lambda>p. mem (snd p))
     (singleStep (ex_thread 100 ex_regs (ex_inst BL (Imm 0x2000) NoArg)) (ex_world [] [ex_trap 100]))
   = Some (mem (ex_world [] [ex_trap 100]))"
proof -
  let ?t = "ex_thread 100 ex_regs (ex_inst BL (Imm 0x2000) NoArg)"
  let ?w = "ex_world [] [ex_trap 100]"
  have ok: "faults ?w = []" by (simp add: ex_world_def)
  have regs: "t_Registers ?t = Inr ex_regs" by (simp add: ex_thread_def)
  have pcs: "resolvePC ?t ex_regs ?w = (Returned (Inr [0x1004, 0x2000]), ?w\<lparr>log := [PeekData 0x1000 4]\<rparr>)"
    using ex_fetch [of 100 "ex_inst BL (Imm 0x2000) NoArg" "[ex_trap 100]"]
    by (simp add: resolvePC_unfold resolve_switch_def case_branch_def ex_inst_def ex_thread_def
        fallthrough_def ex_regs_def)
  have no: "non_overlapping (length (BreakpointInstruction ?t)) (map ucast [0x1004, 0x2000 :: uint64])"
  proof -
    have "length (BreakpointInstruction ?t) = 4" by (simp add: ex_thread_def ex_bkpt_def)
    then show ?thesis using ex_non_overlapping by (simp only:)
  qed
  have ord: "set (rangeOrder ?t m) = set m" for m by (simp add: ex_thread_def)
  have "step_result (singleStep ?t ?w) = Some (Returned None)"
    by code_simp
  then obtain w' where ret: "singleStep ?t ?w = Some (Returned None, w')"
    by (auto simp: step_result_def)
  show ?thesis
    using singleStep_restores_memory [OF ok regs pcs no ord ret] ret by simp
qed

text \<open>
  C1. A branch-exchange at 0x1000 through the link register holding 0x1004: both
  candidates are 0x1004. The second save reads the breakpoint just planted and replaces
  the saved bytes, so after a successful step the four bytes at 0x1004, which were 0x11
  each, hold the breakpoint encoding. With two distinct candidates the bytes are restored.
\<close>

theorem singleStep_duplicate_candidate_not_restored:
  "fst (resolvePC (ex_thread 100 ex_regs (ex_inst BX (Reg 14) NoArg)) ex_regs (ex_world [] [ex_trap 100]))
     = Returned (Inr [0x1004, 0x1004])
   \<and> read_bytes (mem (ex_world [] [ex_trap 100])) 0x1004 4 = [0x11, 0x11, 0x11, 0x11]
   \<and> step_result (singleStep (ex_thread 100 ex_regs (ex_inst BX (Reg 14) NoArg)) (ex_world [] [ex_trap 100]))
     = Some (Returned None)
   \<and> bytes_after (singleStep (ex_thread 100 ex_regs (ex_inst BX (Reg 14) NoArg)) (ex_world [] [ex_trap 100]))
       0x1004 4 = Some [0xf0, 0x01, 0xf0, 0xe7]
   \<and> log_after (singleStep (ex_thread 100 ex_regs (ex_inst BX (Reg 14) NoArg)) (ex_world [] [ex_trap 100]))
     = Some [PeekData 0x1000 4,
             PeekData 0x1004 4, PokeData 0x1004 [0xf0, 0x01, 0xf0, 0xe7],
             PeekData 0x1004 4, PokeData 0x1004 [0xf0, 0x01, 0xf0, 0xe7],
             Cont, Wait,
             PokeData 0x1004 [0xf0, 0x01, 0xf0, 0xe7]]
   \<and> bytes_after (singleStep (ex_thread 100 ex_regs (ex_inst BL (Imm 0x2000) NoArg)) (ex_world [] [ex_trap 100]))
       0x1004 4 = Some [0x11, 0x11, 0x11, 0x11]"
  by code_simp

text \<open>
  C2. The process exits (status 3) before any trap. The wait loop notifies the process
  object and returns the typed condition, but the deferred function then overwrites the
  result with the answer of its last write: \<^verbatim>\<open>singleStep\<close> returns nil when that write
  succeeds, and the write's error when it fails.
\<close>

theorem singleStep_process_exit_result:
  "step_result (singleStep (ex_thread 100 ex_regs (ex_inst (OtherOp 0) NoArg NoArg)) (ex_world [] [ex_exit]))
     = Some (Returned None)
   \<and> log_after (singleStep (ex_thread 100 ex_regs (ex_inst (OtherOp 0) NoArg NoArg)) (ex_world [] [ex_exit]))
     = Some [PeekData 0x1000 4, PeekData 0x1004 4, PokeData 0x1004 [0xf0, 0x01, 0xf0, 0xe7],
             Cont, Wait, PostExit, PokeData 0x1004 [0x11, 0x11, 0x11, 0x11]]
   \<and> step_result (singleStep (ex_thread 100 ex_regs (ex_inst (OtherOp 0) NoArg NoArg))
         (ex_world [None, None, None, None, Some (Errno 3)] [ex_exit]))
     = Some (Returned (Some (Errno 3)))
   \<and> map_option fst (waitLoop (ex_thread 100 ex_regs (ex_inst (OtherOp 0) NoArg NoArg)) [ex_exit] (ex_world [] []))
     = Some (Returned (Some (ErrProcessExited 100 3)))"
  by code_simp

text \<open>
  C3. A branch-with-link to 0x2000: the breakpoint at 0x1004 is planted, the read at
  0x2000 fails with errno 5. The tracee is never resumed, the deferred function restores
  0x1004, and \<^verbatim>\<open>singleStep\<close> returns nil; when that restoring write fails with errno 3
  it returns errno 3. A failing resume (errno 3) and a failing wait (errno 4), each
  followed by a successful restore, also return nil.
\<close>

theorem singleStep_instrument_error_overwritten:
  "step_result (singleStep (ex_thread 100 ex_regs (ex_inst BL (Imm 0x2000) NoArg))
       (ex_world [None, None, None, Some (Errno 5)] []))
     = Some (Returned None)
   \<and> log_after (singleStep (ex_thread 100 ex_regs (ex_inst BL (Imm 0x2000) NoArg))
       (ex_world [None, None, None, Some (Errno 5)] []))
     = Some [PeekData 0x1000 4, PeekData 0x1004 4, PokeData 0x1004 [0xf0, 0x01, 0xf0, 0xe7],
             PeekData 0x2000 4, PokeData 0x1004 [0x11, 0x11, 0x11, 0x11]]
   \<and> fst (instrument (ex_thread 100 ex_regs (ex_inst BL (Imm 0x2000) NoArg)) [0x1004, 0x2000]
         (ex_world [None, None, Some (Errno 5)] []))
     = Some (Errno 5)
   \<and> step_result (singleStep (ex_thread 100 ex_regs (ex_inst BL (Imm 0x2000) NoArg))
       (ex_world [None, None, None, Some (Errno 5), Some (Errno 3)] []))
     = Some (Returned (Some (Errno 3)))
   \<and> step_result (singleStep (ex_thread 100 ex_regs (ex_inst (OtherOp 0) NoArg NoArg))
       (ex_world [None, None, None, Some (Errno 3)] []))
     = Some (Returned None)
   \<and> step_result (singleStep (ex_thread 100 ex_regs (ex_inst (OtherOp 0) NoArg NoArg))
       (ex_world [] [Inl (Errno 4)]))
     = Some (Returned None)"
  by code_simp

text \<open>
  C8. Thread 100 is stepped; an event of thread 101 is observed, then the wait fails with
  errno 4; no trap of thread 100 is ever observed. The wait loop ignores the first event,
  waits again and returns the error, but the deferred function overwrites the result with
  the answer of its restoring write: \<^verbatim>\<open>singleStep\<close> reports success.
\<close>

theorem singleStep_success_without_trap:
  "map_option fst (waitLoop (ex_thread 100 ex_regs (ex_inst (OtherOp 0) NoArg NoArg))
       [ex_trap 101, Inl (Errno 4)] (ex_world [] []))
     = Some (Returned (Some (Errno 4)))
   \<and> \<not> list_ex (trap_event (ex_thread 100 ex_regs (ex_inst (OtherOp 0) NoArg NoArg)))
         [ex_trap 101, Inl (Errno 4)]
   \<and> step_result (singleStep (ex_thread 100 ex_regs (ex_inst (OtherOp 0) NoArg NoArg))
       (ex_world [] [ex_trap 101, Inl (Errno 4)])) = Some (Returned None)
   \<and> log_after (singleStep (ex_thread 100 ex_regs (ex_inst (OtherOp 0) NoArg NoArg))
       (ex_world [] [ex_trap 101, Inl (Errno 4)]))
     = Some [PeekData 0x1000 4, PeekData 0x1004 4, PokeData 0x1004 [0xf0, 0x01, 0xf0, 0xe7],
             Cont, Wait, Wait, PokeData 0x1004 [0x11, 0x11, 0x11, 0x11]]"
  by code_simp

end
